theory Spec2Isabelle
  imports Main "HOL-Library.Char_ord" "HOL-Library.List_Lexorder" "HOL-Library.Sublist"
    "HOL-Library.Multiset"
begin

section \<open>ios/generate\_swift\_bindings.py: the Swift binding generation script\<close>

text \<open>
  The script is sequential glue around the file system, two Python imports, one library
  call and one subprocess. The embedding makes each of these an explicit input of the
  run (\<open>env\<close>) and threads what the run does (the lines printed, the effectful steps
  taken, the node at the output path) through a \<open>world\<close> record. Exceptions are values;
  \<open>try\<close>/\<open>except\<close> is a case split on them.

  Strings are UTF-8 byte sequences, so the emoji of the source are written as their bytes.
  Every \<open>print\<close> call contributes one element to \<open>stdout\<close> (its argument; the newline
  that \<open>print\<close> appends is implicit). \<open>print\<close> and \<open>Path.exists\<close> are taken to succeed.
\<close>

subsection \<open>Exceptions and process status\<close>

text \<open>
  \<open>ImportError\<close> stands for the class and its subclasses, \<open>OtherException\<close> for every
  other subclass of \<open>Exception\<close> (\<open>OSError\<close>, \<open>ValueError\<close>, ...), each with \<open>str(e)\<close>.
  \<open>SystemExit\<close> derives from \<open>BaseException\<close> only.
\<close>

datatype exn = ImportError string | OtherException string | SystemExit int

fun is_ImportError :: "exn \<Rightarrow> bool" where
  "is_ImportError (ImportError m) = True"
| "is_ImportError (OtherException m) = False"
| "is_ImportError (SystemExit n) = False"

fun is_Exception :: "exn \<Rightarrow> bool" where
  "is_Exception (ImportError m) = True"
| "is_Exception (OtherException m) = True"
| "is_Exception (SystemExit n) = False"

fun str_exn :: "exn \<Rightarrow> string" where
  "str_exn (ImportError m) = m"
| "str_exn (OtherException m) = m"
| "str_exn (SystemExit n) = []"

datatype status = Returned | Raised exn

text \<open>
  What the interpreter makes of the way \<open>main()\<close> ends: a normal return is status 0,
  \<open>SystemExit(n)\<close> is status \<open>n\<close>, any other uncaught exception is reported with a
  traceback on the error stream and ends the process with status 1.
\<close>

fun exit_code :: "status \<Rightarrow> int" where
  "exit_code Returned = 0"
| "exit_code (Raised (SystemExit n)) = n"
| "exit_code (Raised (ImportError m)) = 1"
| "exit_code (Raised (OtherException m)) = 1"

subsection \<open>The output path, the environment and the world\<close>

text \<open>
  What is found at the output path: nothing, something that is not a directory, or a
  directory with its entries' names in the order the operating system lists them.
\<close>

datatype node = Absent | File | Dir "string list"

fun exists :: "node \<Rightarrow> bool" where
  "exists Absent = False"
| "exists File = True"
| "exists (Dir names) = True"

text \<open>\<open>Path.glob("*")\<close>: every entry of a directory, nothing for anything else.\<close>

fun glob_star :: "node \<Rightarrow> string list" where
  "glob_star (Dir names) = names"
| "glob_star File = []"
| "glob_star Absent = []"

record completed =
  returncode :: int
  stderr :: string

datatype action =
    Mkdir string
  | Import string
  | Call string
  | Chdir string
  | Subprocess "string list"

text \<open>
  One run's surroundings. The four path strings are \<open>str\<close> of the paths resolved from
  \<open>__file__\<close> in lines 13 to 17. \<open>import_module\<close> is the outcome of
  \<open>import uniffi_bindgen\<close>, \<open>import_name\<close> that of
  \<open>from uniffi_bindgen import generate_bindings\<close> (\<open>None\<close>: no exception).
  The two generators are the call of \<open>generate_bindings\<close> and
  \<open>subprocess.run\<close>: \<open>..._result\<close> is how the call ends in this run (the exception
  raised, or for the subprocess the completed process), \<open>..._effect\<close> is what the call
  does to the node at the output path. \<open>chdir\<close> is the outcome of \<open>os.chdir(core_dir)\<close>.
\<close>

record env =
  core_dir :: string
  udl_file :: string
  lib_file :: string
  out_dir :: string
  lib_exists :: bool
  udl_exists :: bool
  out_node :: node
  mkdir_refused :: "string option"
  import_module :: "exn option"
  import_name :: "exn option"
  generate_bindings_result :: "exn option"
  generate_bindings_effect :: "node \<Rightarrow> node"
  chdir :: "exn option"
  subprocess_result :: "exn + completed"
  subprocess_effect :: "node \<Rightarrow> node"

record world =
  stdout :: "string list"
  trace :: "action list"
  outdir :: node

definition print :: "string \<Rightarrow> world \<Rightarrow> world" where
  "print s w = w\<lparr>stdout := stdout w @ [s]\<rparr>"

definition act :: "action \<Rightarrow> world \<Rightarrow> world" where
  "act a w = w\<lparr>trace := trace w @ [a]\<rparr>"

subsection \<open>The emoji of the source, as UTF-8\<close>

definition hammer :: string where
  "hammer = [CHR 0xF0, CHR 0x9F, CHR 0x94, CHR 0xA8]"

definition page :: string where
  "page = [CHR 0xF0, CHR 0x9F, CHR 0x93, CHR 0x84]"

definition books :: string where
  "books = [CHR 0xF0, CHR 0x9F, CHR 0x93, CHR 0x9A]"

definition folder :: string where
  "folder = [CHR 0xF0, CHR 0x9F, CHR 0x93, CHR 0x82]"

definition cross :: string where
  "cross = [CHR 0xE2, CHR 0x9D, CHR 0x8C]"

definition check_mark :: string where
  "check_mark = [CHR 0xE2, CHR 0x9C, CHR 0x85]"

definition warning :: string where
  "warning = [CHR 0xE2, CHR 0x9A, CHR 0xA0, CHR 0xEF, CHR 0xB8, CHR 0x8F]"

definition memo :: string where
  "memo = [CHR 0xF0, CHR 0x9F, CHR 0x93, CHR 0x9D]"

definition target :: string where
  "target = [CHR 0xF0, CHR 0x9F, CHR 0x8E, CHR 0xAF]"

subsection \<open>Lines 19 to 34: banner and precondition checks\<close>

definition banner :: "env \<Rightarrow> string list" where
  "banner e =
    [hammer @ '' Generating Swift bindings for MePassa Core...'',
     page @ '' UDL file: '' @ udl_file e,
     books @ '' Library: '' @ lib_file e,
     folder @ '' Output: '' @ out_dir e]"

definition lib_missing :: "env \<Rightarrow> string list" where
  "lib_missing e =
    [cross @ '' Error: Library not found at '' @ lib_file e,
     ''   Please build the library first:'',
     ''   cd core && cargo build --release'']"

definition udl_missing :: "env \<Rightarrow> string list" where
  "udl_missing e = [cross @ '' Error: UDL file not found at '' @ udl_file e]"

definition prints :: "string list \<Rightarrow> world \<Rightarrow> world" where
  "prints ls w = fold print ls w"

subsection \<open>Line 37: creating the output directory\<close>

text \<open>
  \<open>out_dir.mkdir(parents=True, exist_ok=True)\<close>: an existing directory is left as it
  is; a path occupied by something else raises \<open>FileExistsError\<close>; a missing directory
  is created empty unless the operating system refuses (\<open>mkdir_refused\<close> carries the
  message of the \<open>OSError\<close>).
\<close>

definition mkdir :: "env \<Rightarrow> world \<Rightarrow> exn option \<times> world" where
  "mkdir e w =
    (let w1 = act (Mkdir (out_dir e)) w in
     case outdir w1 of
       Dir names \<Rightarrow> (None, w1)
     | File \<Rightarrow> (Some (OtherException (''[Errno 17] File exists: '' @ out_dir e)), w1)
     | Absent \<Rightarrow>
         (case mkdir_refused e of
            Some m \<Rightarrow> (Some (OtherException m), w1)
          | None \<Rightarrow> (None, w1\<lparr>outdir := Dir []\<rparr>)))"

subsection \<open>Lines 41 to 55: the in-process strategy (body of the outer try)\<close>

definition in_process :: "env \<Rightarrow> world \<Rightarrow> exn option \<times> world" where
  "in_process e w =
    (let w1 = act (Import ''uniffi_bindgen'') w in
     case import_module e of
       Some x \<Rightarrow> (Some x, w1)
     | None \<Rightarrow>
        (let w2 = print (check_mark @ '' Found uniffi_bindgen Python module'') w1;
             w3 = act (Import ''uniffi_bindgen.generate_bindings'') w2 in
         case import_name e of
           Some x \<Rightarrow> (Some x, w3)
         | None \<Rightarrow>
            (let w4 = act (Call ''generate_bindings'') w3;
                 w5 = w4\<lparr>outdir := generate_bindings_effect e (outdir w4)\<rparr> in
             case generate_bindings_result e of
               Some x \<Rightarrow> (Some x, w5)
             | None \<Rightarrow>
                 (None, print (check_mark @ '' Swift bindings generated successfully!'') w5))))"

subsection \<open>Lines 63 to 84: the external-process strategy (body of the inner try)\<close>

definition cargo_argv :: "env \<Rightarrow> string list" where
  "cargo_argv e =
    [''cargo'', ''run'',
     ''--bin'', ''uniffi-bindgen'',
     ''--features'', ''uniffi/cli'',
     ''--'',
     ''generate'',
     ''--library'', lib_file e,
     ''--language'', ''swift'',
     ''--out-dir'', out_dir e]"

definition cargo_approach :: "env \<Rightarrow> world \<Rightarrow> exn option \<times> world" where
  "cargo_approach e w =
    (let w1 = act (Chdir (core_dir e)) w in
     case chdir e of
       Some x \<Rightarrow> (Some x, w1)
     | None \<Rightarrow>
        (let w2 = act (Subprocess (cargo_argv e)) w1;
             w3 = w2\<lparr>outdir := subprocess_effect e (outdir w2)\<rparr> in
         case subprocess_result e of
           Inl x \<Rightarrow> (Some x, w3)
         | Inr result \<Rightarrow>
             if returncode result = 0
             then (None, print (check_mark @ '' Swift bindings generated successfully!'') w3)
             else (Some (SystemExit 1),
                   print (stderr result) (print (cross @ '' Error generating bindings:'') w3))))"

subsection \<open>Lines 58 to 91: the handler of ImportError, with the inner try/except\<close>

definition manual_guidance :: "string list" where
  "manual_guidance =
    [CHR 0x0A # ''Manual generation required:'',
     ''1. Install uniffi-bindgen Python: pip install uniffi-bindgen'',
     ''2. Or use the Rust example: cd core && cargo run --example generate_bindings'']"

definition warnings :: "string list" where
  "warnings =
    [warning @ ''  uniffi_bindgen Python module not found'',
     ''   Trying cargo-based approach...'']"

definition fallback :: "env \<Rightarrow> world \<Rightarrow> exn option \<times> world" where
  "fallback e w =
    (let w1 = prints warnings w in
     case cargo_approach e w1 of
       (None, w2) \<Rightarrow> (None, w2)
     | (Some x, w2) \<Rightarrow>
         if is_Exception x
         then (Some (SystemExit 1),
               prints manual_guidance (print (cross @ '' Error: '' @ str_exn x) w2))
         else (Some x, w2))"

subsection \<open>Lines 94 to 102: listing and next steps\<close>

definition next_steps :: "string list" where
  "next_steps =
    [CHR 0x0A # target @ '' Next steps:'',
     ''   1. Add generated files to Xcode project'',
     ''   2. Add libmepassa_core.a to '' @ [CHR 0x27] @ ''Frameworks and Libraries'' @ [CHR 0x27],
     ''   3. Import mepassa in Swift: import mepassa'']"

definition entry_line :: "string \<Rightarrow> string" where
  "entry_line name = ''   - '' @ name"

definition listing :: "node \<Rightarrow> string list" where
  "listing n =
    (if exists n
     then (CHR 0x0A # memo @ '' Generated files:'') # map entry_line (sort (glob_star n))
     else [])"

definition report :: "world \<Rightarrow> status \<times> world" where
  "report w = (Returned, prints next_steps (prints (listing (outdir w)) w))"

subsection \<open>main\<close>

definition generate :: "env \<Rightarrow> world \<Rightarrow> exn option \<times> world" where
  "generate e w =
    (case in_process e w of
       (None, w1) \<Rightarrow> (None, w1)
     | (Some x, w1) \<Rightarrow> if is_ImportError x then fallback e w1 else (Some x, w1))"

text \<open>The world after lines 19 to 22: nothing done yet, the banner printed.\<close>

definition start :: "env \<Rightarrow> world" where
  "start e = prints (banner e) \<lparr>stdout = [], trace = [], outdir = out_node e\<rparr>"

definition main :: "env \<Rightarrow> status \<times> world" where
  "main e =
    (let w0 = start e in
     if \<not> lib_exists e then (Raised (SystemExit 1), prints (lib_missing e) w0)
     else if \<not> udl_exists e then (Raised (SystemExit 1), prints (udl_missing e) w0)
     else
       (case mkdir e w0 of
          (Some x, w1) \<Rightarrow> (Raised x, w1)
        | (None, w1) \<Rightarrow>
           (case generate e w1 of
              (Some x, w2) \<Rightarrow> (Raised x, w2)
            | (None, w2) \<Rightarrow> report w2)))"

subsection \<open>Which part of the script a run gets to\<close>

text \<open>
  \<open>reaches_generation\<close>: both precondition checks pass and line 37 does not raise, so
  the run arrives at the outer \<open>try\<close>. \<open>falls_back\<close>: moreover the body of the outer
  \<open>try\<close> raises an \<open>ImportError\<close>, so the run enters the handler of line 57.
\<close>

definition reaches_generation :: "env \<Rightarrow> bool" where
  "reaches_generation e \<longleftrightarrow>
     lib_exists e \<and> udl_exists e \<and> fst (mkdir e (start e)) = None"

definition falls_back :: "env \<Rightarrow> bool" where
  "falls_back e \<longleftrightarrow>
     reaches_generation e \<and>
     (case fst (in_process e (snd (mkdir e (start e)))) of
        Some x \<Rightarrow> is_ImportError x
      | None \<Rightarrow> False)"

text \<open>Did the run end by printing the manual guidance block of lines 88 to 90?\<close>

definition guidance_shown :: "world \<Rightarrow> bool" where
  "guidance_shown w \<longleftrightarrow> suffix manual_guidance (stdout w)"

subsection \<open>A sample environment\<close>

text \<open>
  A checkout under \<open>/repo\<close> with both inputs built, no output directory yet, the
  Python module installed, and generators that succeed and write the two Swift binding
  files. The concrete runs below are variations of it.
\<close>

definition writes_bindings :: "node \<Rightarrow> node" where
  "writes_bindings n = Dir (''mepassaFFI.h'' # ''mepassa.swift'' # glob_star n)"

definition sample_env :: env where
  "sample_env =
    \<lparr>core_dir = ''/repo/core'',
     udl_file = ''/repo/core/src/mepassa.udl'',
     lib_file = ''/repo/target/release/libmepassa_core.dylib'',
     out_dir = ''/repo/ios/MePassa/Generated'',
     lib_exists = True,
     udl_exists = True,
     out_node = Absent,
     mkdir_refused = None,
     import_module = None,
     import_name = None,
     generate_bindings_result = None,
     generate_bindings_effect = writes_bindings,
     chdir = None,
     subprocess_result = Inr \<lparr>returncode = 0, stderr = []\<rparr>,
     subprocess_effect = writes_bindings\<rparr>"

definition no_module :: exn where
  "no_module = ImportError (''No module named '' @ [CHR 0x27] @ ''uniffi_bindgen'' @ [CHR 0x27])"

text \<open>A completed cargo process that failed, and cargo missing from the search path.\<close>

definition cargo_failure :: completed where
  "cargo_failure = \<lparr>returncode = 101, stderr = ''error: no bin target named uniffi-bindgen''\<rparr>"

definition cargo_not_found :: exn where
  "cargo_not_found =
     OtherException (''[Errno 2] No such file or directory: '' @ [CHR 0x27] @ ''cargo'' @ [CHR 0x27])"

text \<open>
  A run in which both strategies fail: the module is not installed and cargo is not on the
  search path, so nothing is written.
\<close>

definition both_fail :: env where
  "both_fail =
     sample_env\<lparr>import_module := Some no_module, subprocess_result := Inl cargo_not_found,
       subprocess_effect := (\<lambda>n. n)\<rparr>"

text \<open>A run in which the module is not installed and cargo exits with a failure.\<close>

definition cargo_fails :: env where
  "cargo_fails = sample_env\<lparr>import_module := Some no_module, subprocess_result := Inr cargo_failure\<rparr>"

text \<open>\<open>Path.is_dir\<close> on the node at a path.\<close>

fun is_dir :: "node \<Rightarrow> bool" where
  "is_dir (Dir names) = True"
| "is_dir File = False"
| "is_dir Absent = False"

section \<open>Properties\<close>

subsection \<open>What each block prints, does and returns\<close>

lemma print_simps:
  "stdout (print s w) = stdout w @ [s]" "trace (print s w) = trace w" "outdir (print s w) = outdir w"
  by (simp_all add: print_def)

lemma act_simps:
  "stdout (act a w) = stdout w" "trace (act a w) = trace w @ [a]" "outdir (act a w) = outdir w"
  by (simp_all add: act_def)

lemma stdout_prints: "stdout (prints ls w) = stdout w @ ls"
  unfolding prints_def by (induction ls arbitrary: w) (simp_all add: print_simps)

lemma trace_prints: "trace (prints ls w) = trace w"
  unfolding prints_def by (induction ls arbitrary: w) (simp_all add: print_simps)

lemma outdir_prints: "outdir (prints ls w) = outdir w"
  unfolding prints_def by (induction ls arbitrary: w) (simp_all add: print_simps)

lemmas world_simps = print_simps act_simps stdout_prints trace_prints outdir_prints

lemma start_simps:
  "stdout (start e) = banner e" "trace (start e) = []" "outdir (start e) = out_node e"
  by (simp_all add: start_def world_simps)

lemma mkdir_simps:
  "stdout (snd (mkdir e w)) = stdout w"
  "trace (snd (mkdir e w)) = trace w @ [Mkdir (out_dir e)]"
  "fst (mkdir e w) = None \<Longrightarrow> outdir (snd (mkdir e w)) = Dir (glob_star (outdir w))"
  "fst (mkdir e w) = Some x \<Longrightarrow> outdir (snd (mkdir e w)) = outdir w"
  by (auto simp: mkdir_def Let_def world_simps split: node.splits option.splits)

lemma mkdir_fst:
  "fst (mkdir e w) =
    (case outdir w of
       Dir names \<Rightarrow> None
     | File \<Rightarrow> Some (OtherException (''[Errno 17] File exists: '' @ out_dir e))
     | Absent \<Rightarrow> map_option OtherException (mkdir_refused e))"
  by (auto simp: mkdir_def Let_def world_simps split: node.splits option.splits)

lemma in_process_fst:
  "fst (in_process e w) =
    (case import_module e of Some x \<Rightarrow> Some x
     | None \<Rightarrow> (case import_name e of Some x \<Rightarrow> Some x
        | None \<Rightarrow> generate_bindings_result e))"
  by (auto simp: in_process_def Let_def split: option.splits)

lemma in_process_stdout:
  "stdout (snd (in_process e w)) = stdout w @
    (case import_module e of Some x \<Rightarrow> []
     | None \<Rightarrow> [check_mark @ '' Found uniffi_bindgen Python module''] @
        (case import_name e of Some x \<Rightarrow> []
         | None \<Rightarrow> (case generate_bindings_result e of Some x \<Rightarrow> []
            | None \<Rightarrow> [check_mark @ '' Swift bindings generated successfully!''])))"
  by (auto simp: in_process_def Let_def world_simps split: option.splits)

lemma in_process_trace:
  "trace (snd (in_process e w)) = trace w @ Import ''uniffi_bindgen'' #
    (case import_module e of Some x \<Rightarrow> []
     | None \<Rightarrow> Import ''uniffi_bindgen.generate_bindings'' #
        (case import_name e of Some x \<Rightarrow> []
         | None \<Rightarrow> [Call ''generate_bindings'']))"
  by (auto simp: in_process_def Let_def world_simps split: option.splits)

lemma in_process_outdir:
  "outdir (snd (in_process e w)) =
    (if import_module e = None \<and> import_name e = None
     then generate_bindings_effect e (outdir w) else outdir w)"
  by (auto simp: in_process_def Let_def world_simps split: option.splits)

lemma cargo_approach_fst:
  "fst (cargo_approach e w) =
    (case chdir e of Some x \<Rightarrow> Some x
     | None \<Rightarrow> (case subprocess_result e of Inl x \<Rightarrow> Some x
        | Inr result \<Rightarrow> if returncode result = 0 then None else Some (SystemExit 1)))"
  by (auto simp: cargo_approach_def Let_def split: option.splits sum.splits)

lemma cargo_approach_stdout:
  "stdout (snd (cargo_approach e w)) = stdout w @
    (case chdir e of Some x \<Rightarrow> []
     | None \<Rightarrow> (case subprocess_result e of Inl x \<Rightarrow> []
        | Inr result \<Rightarrow>
            if returncode result = 0
            then [check_mark @ '' Swift bindings generated successfully!'']
            else [cross @ '' Error generating bindings:'', stderr result]))"
  by (auto simp: cargo_approach_def Let_def world_simps split: option.splits sum.splits)

lemma cargo_approach_trace:
  "trace (snd (cargo_approach e w)) = trace w @ Chdir (core_dir e) #
    (case chdir e of Some x \<Rightarrow> [] | None \<Rightarrow> [Subprocess (cargo_argv e)])"
  by (auto simp: cargo_approach_def Let_def world_simps split: option.splits sum.splits)

lemma cargo_approach_outdir:
  "outdir (snd (cargo_approach e w)) =
    (case chdir e of Some x \<Rightarrow> outdir w | None \<Rightarrow> subprocess_effect e (outdir w))"
  by (auto simp: cargo_approach_def Let_def world_simps split: option.splits sum.splits)

lemma fallback_unfold:
  "fallback e w =
    (case fst (cargo_approach e (prints warnings w)) of
       None \<Rightarrow> (None, snd (cargo_approach e (prints warnings w)))
     | Some x \<Rightarrow>
         if is_Exception x
         then (Some (SystemExit 1),
               prints manual_guidance
                 (print (cross @ '' Error: '' @ str_exn x) (snd (cargo_approach e (prints warnings w)))))
         else (Some x, snd (cargo_approach e (prints warnings w))))"
  by (cases "cargo_approach e (prints warnings w)")
     (simp add: fallback_def split: option.splits)

lemma fallback_fst:
  "fst (fallback e w) =
    (case fst (cargo_approach e w) of None \<Rightarrow> None
     | Some x \<Rightarrow> if is_Exception x then Some (SystemExit 1) else Some x)"
  by (simp add: fallback_unfold cargo_approach_fst split: option.splits sum.splits)

lemma fallback_stdout:
  "stdout (snd (fallback e w)) = stdout (snd (cargo_approach e (prints warnings w))) @
    (case fst (cargo_approach e w) of None \<Rightarrow> []
     | Some x \<Rightarrow> if is_Exception x then (cross @ '' Error: '' @ str_exn x) # manual_guidance else [])"
  by (simp add: fallback_unfold cargo_approach_fst world_simps split: option.splits sum.splits)

lemma fallback_trace:
  "trace (snd (fallback e w)) = trace (snd (cargo_approach e w))"
  by (simp add: fallback_unfold cargo_approach_fst cargo_approach_trace world_simps split: option.splits sum.splits)

lemma fallback_outdir:
  "outdir (snd (fallback e w)) = outdir (snd (cargo_approach e w))"
  by (simp add: fallback_unfold cargo_approach_fst cargo_approach_outdir world_simps split: option.splits sum.splits)

lemma generate_unfold:
  "generate e w =
    (case fst (in_process e w) of
       None \<Rightarrow> (None, snd (in_process e w))
     | Some x \<Rightarrow> if is_ImportError x then fallback e (snd (in_process e w))
                 else (Some x, snd (in_process e w)))"
  by (cases "in_process e w") (simp add: generate_def split: option.splits)

lemma main_unfold:
  "main e =
    (if \<not> lib_exists e then (Raised (SystemExit 1), prints (lib_missing e) (start e))
     else if \<not> udl_exists e then (Raised (SystemExit 1), prints (udl_missing e) (start e))
     else case fst (mkdir e (start e)) of
        Some x \<Rightarrow> (Raised x, snd (mkdir e (start e)))
      | None \<Rightarrow>
         (case fst (generate e (snd (mkdir e (start e)))) of
            Some x \<Rightarrow> (Raised x, snd (generate e (snd (mkdir e (start e)))))
          | None \<Rightarrow> report (snd (generate e (snd (mkdir e (start e)))))))"
  by (cases "mkdir e (start e)"; cases "generate e (snd (mkdir e (start e)))")
     (simp add: main_def Let_def split: option.splits)

lemma report_simps:
  "fst (report w) = Returned"
  "stdout (snd (report w)) = stdout w @ listing (outdir w) @ next_steps"
  "trace (snd (report w)) = trace w"
  "outdir (snd (report w)) = outdir w"
  by (simp_all add: report_def world_simps)

lemma main_reached:
  "reaches_generation e \<Longrightarrow>
   main e =
    (case fst (generate e (snd (mkdir e (start e)))) of
       Some x \<Rightarrow> (Raised x, snd (generate e (snd (mkdir e (start e)))))
     | None \<Rightarrow> report (snd (generate e (snd (mkdir e (start e))))))"
  by (simp add: main_unfold reaches_generation_def)

lemma made_outdir:
  "reaches_generation e \<Longrightarrow> outdir (snd (mkdir e (start e))) = Dir (glob_star (out_node e))"
  by (simp add: reaches_generation_def mkdir_simps start_simps)

lemma sample_reaches:
  "out_node e = Absent \<Longrightarrow> mkdir_refused e = None \<Longrightarrow> lib_exists e \<Longrightarrow> udl_exists e \<Longrightarrow>
   reaches_generation e"
  by (simp add: reaches_generation_def mkdir_fst start_simps)

lemma sample_falls_back:
  "reaches_generation e \<Longrightarrow> import_module e = Some x \<Longrightarrow> is_ImportError x \<Longrightarrow> falls_back e"
  by (simp add: falls_back_def in_process_fst)

lemma generate_trace: "\<exists>rest. trace (snd (generate e w)) = trace w @ rest"
  by (simp add: generate_unfold in_process_trace fallback_trace cargo_approach_trace
      split: option.splits)

lemma generate_keeps_dir:
  assumes "is_dir (outdir w)"
    and "\<And>n. is_dir n \<Longrightarrow> is_dir (generate_bindings_effect e n)"
    and "\<And>n. is_dir n \<Longrightarrow> is_dir (subprocess_effect e n)"
  shows "is_dir (outdir (snd (generate e w)))"
proof -
  have a: "is_dir (outdir (snd (in_process e w)))"
    using assms(1,2) by (simp add: in_process_outdir)
  have b: "is_dir (outdir (snd (cargo_approach e w')))" if "is_dir (outdir w')" for w'
    using that assms(3) by (simp add: cargo_approach_outdir split: option.splits)
  show ?thesis
    using a b [OF a] by (simp add: generate_unfold fallback_outdir split: option.splits)
qed

lemma mkdir_raises:
  assumes "lib_exists e" and "udl_exists e" and "\<not> reaches_generation e"
  shows "(\<exists>x. fst (main e) = Raised x \<and> is_Exception x) \<and>
       trace (snd (main e)) = [Mkdir (out_dir e)] \<and> outdir (snd (main e)) = out_node e"
proof -
  from assms obtain x where x: "fst (mkdir e (start e)) = Some x"
    by (auto simp: reaches_generation_def)
  then have ex: "is_Exception x"
    by (auto simp: mkdir_fst split: node.splits)
  from assms x have m: "main e = (Raised x, snd (mkdir e (start e)))"
    by (simp add: main_unfold)
  show ?thesis
    unfolding m using x ex by (simp add: mkdir_simps start_simps)
qed

lemma reached_trace:
  assumes "reaches_generation e"
  shows "\<exists>rest. trace (snd (main e)) = Mkdir (out_dir e) # rest"
proof -
  let ?w1 = "snd (mkdir e (start e))"
  let ?w2 = "snd (generate e ?w1)"
  have t: "trace (snd (main e)) = trace ?w2"
    by (simp add: main_reached [OF assms] report_simps split: option.splits)
  obtain rest where r: "trace ?w2 = trace ?w1 @ rest"
    using generate_trace by blast
  show ?thesis
    by (simp add: t r mkdir_simps start_simps)
qed

lemma reached_outdir:
  assumes "reaches_generation e"
  shows "outdir (snd (main e)) = outdir (snd (generate e (snd (mkdir e (start e)))))"
  by (simp add: main_reached [OF assms] report_simps split: option.splits)

lemma falls_back_main:
  assumes "falls_back e"
  shows "\<exists>w. main e =
    (case fst (cargo_approach e w) of
       None \<Rightarrow> report (snd (cargo_approach e (prints warnings w)))
     | Some x \<Rightarrow>
         if is_Exception x
         then (Raised (SystemExit 1),
               prints manual_guidance
                 (print (cross @ '' Error: '' @ str_exn x)
                    (snd (cargo_approach e (prints warnings w)))))
         else (Raised x, snd (cargo_approach e (prints warnings w))))"
proof -
  let ?w = "snd (in_process e (snd (mkdir e (start e))))"
  from assms have r: "reaches_generation e"
    by (simp add: falls_back_def)
  from assms obtain x where x: "fst (in_process e (snd (mkdir e (start e)))) = Some x"
    and i: "is_ImportError x"
    by (auto simp: falls_back_def split: option.splits)
  have g: "generate e (snd (mkdir e (start e))) = fallback e ?w"
    by (simp add: generate_unfold x i)
  have "main e =
    (case fst (cargo_approach e ?w) of
       None \<Rightarrow> report (snd (cargo_approach e (prints warnings ?w)))
     | Some x \<Rightarrow>
         if is_Exception x
         then (Raised (SystemExit 1),
               prints manual_guidance
                 (print (cross @ '' Error: '' @ str_exn x)
                    (snd (cargo_approach e (prints warnings ?w)))))
         else (Raised x, snd (cargo_approach e (prints warnings ?w))))"
    unfolding main_reached [OF r] g
    by (simp add: fallback_unfold cargo_approach_fst split: option.splits sum.splits)
  then show ?thesis ..
qed

lemma not_guidance_after_stderr:
  "\<not> suffix manual_guidance (pre @ [cross @ '' Error generating bindings:'', s])"
  by (simp add: suffix_to_prefix manual_guidance_def cross_def)

lemma not_guidance_after_warnings:
  "\<not> suffix manual_guidance (pre @ warnings)"
  by (simp add: suffix_to_prefix manual_guidance_def warnings_def)

lemma not_guidance_after_next_steps:
  "\<not> suffix manual_guidance (pre @ next_steps)"
  by (simp add: suffix_to_prefix manual_guidance_def next_steps_def)

subsection \<open>Precondition checks\<close>

text \<open>
  Claim C1. Whenever the compiled library or the UDL file is missing, the script prints
  the banner and then the error lines of the first failing check and nothing else, ends
  with \<open>sys.exit(1)\<close> (exit status 1), and has taken no effectful step at all: no
  directory creation, no import, no call of the generator, no subprocess. The output path
  is as it was.
\<close>

theorem missing_artifact_exits_without_generation:
  assumes "\<not> lib_exists e \<or> \<not> udl_exists e"
  shows "fst (main e) = Raised (SystemExit 1) \<and> exit_code (fst (main e)) = 1 \<and>
    trace (snd (main e)) = [] \<and> outdir (snd (main e)) = out_node e \<and>
    stdout (snd (main e)) = banner e @ (if lib_exists e then udl_missing e else lib_missing e)"
  using assms by (auto simp: main_unfold world_simps start_simps)

theorem missing_artifact_exits_without_generation_witness:
  "\<not> udl_exists (sample_env\<lparr>udl_exists := False\<rparr>) \<and>
   fst (main (sample_env\<lparr>udl_exists := False\<rparr>)) = Raised (SystemExit 1) \<and>
   exit_code (fst (main (sample_env\<lparr>udl_exists := False\<rparr>))) = 1 \<and>
   trace (snd (main (sample_env\<lparr>udl_exists := False\<rparr>))) = [] \<and>
   stdout (snd (main (sample_env\<lparr>udl_exists := False\<rparr>))) =
     banner sample_env @ udl_missing sample_env"
  using missing_artifact_exits_without_generation [of "sample_env\<lparr>udl_exists := False\<rparr>"]
  by (simp add: sample_env_def banner_def udl_missing_def)

text \<open>
  Claim C8. The library is checked first: when both the library and the UDL file are
  missing, the output is the banner followed by the three library-missing lines (with the
  cargo build guidance), the UDL-missing line is not among the lines printed, and the
  exit status is 1.
\<close>

theorem library_checked_before_udl:
  assumes "\<not> lib_exists e" and "\<not> udl_exists e"
  shows "stdout (snd (main e)) = banner e @ lib_missing e \<and>
    set (udl_missing e) \<inter> set (stdout (snd (main e))) = {} \<and>
    fst (main e) = Raised (SystemExit 1) \<and> exit_code (fst (main e)) = 1"
  using assms
  by (auto simp: main_unfold world_simps start_simps banner_def lib_missing_def udl_missing_def
      hammer_def page_def books_def folder_def cross_def)

theorem library_checked_before_udl_witness:
  "\<not> lib_exists (sample_env\<lparr>lib_exists := False, udl_exists := False\<rparr>) \<and>
   \<not> udl_exists (sample_env\<lparr>lib_exists := False, udl_exists := False\<rparr>) \<and>
   stdout (snd (main (sample_env\<lparr>lib_exists := False, udl_exists := False\<rparr>))) =
     banner sample_env @ lib_missing sample_env \<and>
   exit_code (fst (main (sample_env\<lparr>lib_exists := False, udl_exists := False\<rparr>))) = 1"
  using library_checked_before_udl [of "sample_env\<lparr>lib_exists := False, udl_exists := False\<rparr>"]
  by (simp add: sample_env_def banner_def lib_missing_def)

subsection \<open>The in-process strategy\<close>

text \<open>
  Claim C2, as amended. When both inputs exist, the output directory can be created and
  both imports and the call of \<open>generate_bindings\<close> complete without raising, the run
  returns normally (exit status 0), and the output path is left exactly as the generator
  left the directory that line 37 provided: the script lists what is there but checks
  nothing, so the directory holds a file only if the generator wrote one or one was there
  before.
\<close>

theorem in_process_success_exit_0:
  assumes "reaches_generation e" and "import_module e = None" and "import_name e = None"
    and "generate_bindings_result e = None"
  shows "fst (main e) = Returned \<and> exit_code (fst (main e)) = 0 \<and>
    outdir (snd (main e)) = generate_bindings_effect e (Dir (glob_star (out_node e))) \<and>
    stdout (snd (main e)) = banner e @
      [check_mark @ '' Found uniffi_bindgen Python module'',
       check_mark @ '' Swift bindings generated successfully!''] @
      listing (outdir (snd (main e))) @ next_steps"
  using assms
  by (simp add: main_reached generate_unfold in_process_fst in_process_stdout in_process_outdir
      report_simps made_outdir mkdir_simps start_simps)

theorem in_process_success_exit_0_witness:
  "reaches_generation sample_env \<and> import_module sample_env = None \<and>
   import_name sample_env = None \<and> generate_bindings_result sample_env = None \<and>
   fst (main sample_env) = Returned \<and> exit_code (fst (main sample_env)) = 0 \<and>
   outdir (snd (main sample_env)) = Dir [''mepassaFFI.h'', ''mepassa.swift'']"
proof -
  have r: "reaches_generation sample_env"
    by (rule sample_reaches) (simp_all add: sample_env_def)
  from in_process_success_exit_0 [OF r] show ?thesis
    by (simp add: r) (simp add: sample_env_def writes_bindings_def)
qed

text \<open>
  The claim as stated fails for a generator that returns without writing anything: with no
  output directory before the run, the run exits with status 0 and the directory created by
  line 37 is empty.
\<close>

theorem no_op_generator_leaves_empty_directory:
  "reaches_generation (sample_env\<lparr>generate_bindings_effect := (\<lambda>n. n)\<rparr>) \<and>
   import_module (sample_env\<lparr>generate_bindings_effect := (\<lambda>n. n)\<rparr>) = None \<and>
   import_name (sample_env\<lparr>generate_bindings_effect := (\<lambda>n. n)\<rparr>) = None \<and>
   generate_bindings_result (sample_env\<lparr>generate_bindings_effect := (\<lambda>n. n)\<rparr>) = None \<and>
   exit_code (fst (main (sample_env\<lparr>generate_bindings_effect := (\<lambda>n. n)\<rparr>))) = 0 \<and>
   outdir (snd (main (sample_env\<lparr>generate_bindings_effect := (\<lambda>n. n)\<rparr>))) = Dir [] \<and>
   glob_star (outdir (snd (main (sample_env\<lparr>generate_bindings_effect := (\<lambda>n. n)\<rparr>)))) = []"
  by (simp add: main_unfold generate_unfold in_process_fst in_process_outdir report_simps
      reaches_generation_def mkdir_fst mkdir_simps start_simps sample_env_def)

subsection \<open>Falling back to the external process\<close>

text \<open>
  Claim C3. When the run reaches the outer \<open>try\<close> and either import of the in-process
  generator raises an \<open>ImportError\<close>, the run goes on: the next effectful step is
  \<open>os.chdir(core_dir)\<close>, and unless that raises, the cargo subprocess is started. The
  import failure is announced by the two warning lines; it never ends the run itself (no
  run ends in an uncaught \<open>Exception\<close> here), and when cargo exits with 0 the script
  returns normally with exit status 0.
\<close>

theorem import_error_falls_back:
  assumes "reaches_generation e"
    and "import_module e = Some x \<or> (import_module e = None \<and> import_name e = Some x)"
    and "is_ImportError x"
  shows "trace (snd (main e)) =
      [Mkdir (out_dir e), Import ''uniffi_bindgen''] @
      (if import_module e = None then [Import ''uniffi_bindgen.generate_bindings''] else []) @
      [Chdir (core_dir e)] @
      (if chdir e = None then [Subprocess (cargo_argv e)] else []) \<and>
    prefix (banner e @
        (if import_module e = None then [check_mark @ '' Found uniffi_bindgen Python module'']
         else []) @ warnings)
      (stdout (snd (main e))) \<and>
    (\<forall>y. fst (main e) = Raised y \<longrightarrow> \<not> is_Exception y) \<and>
    (\<forall>r. chdir e = None \<and> subprocess_result e = Inr r \<and> returncode r = 0 \<longrightarrow>
         fst (main e) = Returned \<and> exit_code (fst (main e)) = 0)"
  using assms
  by (auto simp add: main_reached generate_unfold in_process_fst in_process_trace in_process_stdout
      fallback_fst fallback_trace fallback_stdout cargo_approach_fst cargo_approach_trace
      cargo_approach_stdout world_simps
      report_simps mkdir_simps start_simps split: option.splits sum.splits)

theorem import_error_falls_back_witness:
  "reaches_generation (sample_env\<lparr>import_module := Some no_module\<rparr>) \<and>
   import_module (sample_env\<lparr>import_module := Some no_module\<rparr>) = Some no_module \<and>
   is_ImportError no_module \<and>
   trace (snd (main (sample_env\<lparr>import_module := Some no_module\<rparr>))) =
     [Mkdir ''/repo/ios/MePassa/Generated'', Import ''uniffi_bindgen'', Chdir ''/repo/core'',
      Subprocess (cargo_argv sample_env)] \<and>
   fst (main (sample_env\<lparr>import_module := Some no_module\<rparr>)) = Returned \<and>
   exit_code (fst (main (sample_env\<lparr>import_module := Some no_module\<rparr>))) = 0"
proof -
  let ?e = "sample_env\<lparr>import_module := Some no_module\<rparr>"
  have r: "reaches_generation ?e"
    by (rule sample_reaches) (simp_all add: sample_env_def)
  have i: "import_module ?e = Some no_module \<or>
      (import_module ?e = None \<and> import_name ?e = Some no_module)"
    by simp
  have m: "is_ImportError no_module" by (simp add: no_module_def)
  from import_error_falls_back [OF r i m] show ?thesis
    by (simp add: r m) (simp add: sample_env_def cargo_argv_def)
qed

subsection \<open>Failure of the external process\<close>

text \<open>
  Claim C4. When the handler of \<open>ImportError\<close> is entered, the change of directory
  succeeds and the cargo subprocess completes with a return code other than 0, the last
  two lines printed are the error heading and the captured standard-error text, and the run
  ends with \<open>sys.exit(1)\<close>: exit status 1.
\<close>

theorem cargo_nonzero_exits_1:
  assumes "falls_back e" and "chdir e = None" and "subprocess_result e = Inr r"
    and "returncode r \<noteq> 0"
  shows "fst (main e) = Raised (SystemExit 1) \<and> exit_code (fst (main e)) = 1 \<and>
    suffix [cross @ '' Error generating bindings:'', stderr r] (stdout (snd (main e)))"
  using assms
  by (auto simp add: falls_back_def main_reached generate_unfold 
      fallback_fst fallback_stdout cargo_approach_fst cargo_approach_stdout
      report_simps mkdir_simps start_simps suffix_def split: option.splits sum.splits)

theorem cargo_nonzero_exits_1_witness:
  "falls_back (sample_env\<lparr>import_module := Some no_module, subprocess_result := Inr cargo_failure\<rparr>) \<and>
   returncode cargo_failure \<noteq> 0 \<and>
   fst (main (sample_env\<lparr>import_module := Some no_module, subprocess_result := Inr cargo_failure\<rparr>))
     = Raised (SystemExit 1) \<and>
   exit_code (fst (main (sample_env\<lparr>import_module := Some no_module,
     subprocess_result := Inr cargo_failure\<rparr>))) = 1 \<and>
   suffix [cross @ '' Error generating bindings:'', ''error: no bin target named uniffi-bindgen'']
     (stdout (snd (main (sample_env\<lparr>import_module := Some no_module,
        subprocess_result := Inr cargo_failure\<rparr>))))"
proof -
  let ?e = "sample_env\<lparr>import_module := Some no_module, subprocess_result := Inr cargo_failure\<rparr>"
  have r: "reaches_generation ?e"
    by (rule sample_reaches) (simp_all add: sample_env_def)
  have f: "falls_back ?e"
    by (rule sample_falls_back [OF r, of no_module]) (simp_all add: no_module_def)
  have c: "chdir ?e = None" by (simp add: sample_env_def)
  have s: "subprocess_result ?e = Inr cargo_failure" by simp
  have n: "returncode cargo_failure \<noteq> 0" by (simp add: cargo_failure_def)
  from cargo_nonzero_exits_1 [OF f c s n] show ?thesis
    by (simp add: f n) (simp add: cargo_failure_def)
qed

subsection \<open>An unexpected exception from the in-process generator\<close>

text \<open>
  Claim C5, as amended. When the call of \<open>generate_bindings\<close> raises anything that is
  not an \<open>ImportError\<close>, no handler of the script applies: the exception leaves
  \<open>main\<close> uncaught, so for an \<open>Exception\<close> the interpreter reports it and the exit
  status is 1. The script itself prints nothing after the line that announces the module:
  no error line, no manual guidance; the external-process strategy is not tried.
\<close>

theorem generator_exception_propagates:
  assumes "reaches_generation e" and "import_module e = None" and "import_name e = None"
    and "generate_bindings_result e = Some x" and "\<not> is_ImportError x"
  shows "fst (main e) = Raised x \<and> (is_Exception x \<longrightarrow> exit_code (fst (main e)) = 1) \<and>
    stdout (snd (main e)) = banner e @ [check_mark @ '' Found uniffi_bindgen Python module''] \<and>
    trace (snd (main e)) =
      [Mkdir (out_dir e), Import ''uniffi_bindgen'', Import ''uniffi_bindgen.generate_bindings'',
       Call ''generate_bindings'']"
  using assms
  by (cases x) (simp_all add: main_reached generate_unfold in_process_fst in_process_stdout in_process_trace
       mkdir_simps start_simps)

theorem generator_exception_propagates_witness:
  "reaches_generation (sample_env\<lparr>generate_bindings_result := Some (OtherException ''boom'')\<rparr>) \<and>
   \<not> is_ImportError (OtherException ''boom'') \<and> is_Exception (OtherException ''boom'') \<and>
   fst (main (sample_env\<lparr>generate_bindings_result := Some (OtherException ''boom'')\<rparr>)) =
     Raised (OtherException ''boom'') \<and>
   exit_code (fst (main (sample_env\<lparr>generate_bindings_result := Some (OtherException ''boom'')\<rparr>))) = 1"
proof -
  let ?e = "sample_env\<lparr>generate_bindings_result := Some (OtherException ''boom'')\<rparr>"
  have r: "reaches_generation ?e"
    by (rule sample_reaches) (simp_all add: sample_env_def)
  have a: "import_module ?e = None" "import_name ?e = None" by (simp_all add: sample_env_def)
  have g: "generate_bindings_result ?e = Some (OtherException ''boom'')" by simp
  have n: "\<not> is_ImportError (OtherException ''boom'')" by simp
  from generator_exception_propagates [OF r a g n] show ?thesis
    by (simp add: r)
qed

text \<open>
  The claim as stated promises the manual-recovery instructions. For a generator that
  raises a plain exception with message \<open>boom\<close> the exit status is 1, but the output is
  the banner and the module line only: none of the guidance lines is printed.
\<close>

theorem generator_exception_shows_no_guidance:
  "reaches_generation (sample_env\<lparr>generate_bindings_result := Some (OtherException ''boom'')\<rparr>) \<and>
   import_module (sample_env\<lparr>generate_bindings_result := Some (OtherException ''boom'')\<rparr>) = None \<and>
   import_name (sample_env\<lparr>generate_bindings_result := Some (OtherException ''boom'')\<rparr>) = None \<and>
   exit_code (fst (main (sample_env\<lparr>generate_bindings_result := Some (OtherException ''boom'')\<rparr>))) = 1 \<and>
   stdout (snd (main (sample_env\<lparr>generate_bindings_result := Some (OtherException ''boom'')\<rparr>))) =
     banner sample_env @ [check_mark @ '' Found uniffi_bindgen Python module''] \<and>
   set manual_guidance \<inter>
     set (stdout (snd (main (sample_env\<lparr>generate_bindings_result := Some (OtherException ''boom'')\<rparr>)))) = {} \<and>
   \<not> guidance_shown (snd (main (sample_env\<lparr>generate_bindings_result := Some (OtherException ''boom'')\<rparr>)))"
proof -
  let ?e = "sample_env\<lparr>generate_bindings_result := Some (OtherException ''boom'')\<rparr>"
  have r: "reaches_generation ?e"
    by (rule sample_reaches) (simp_all add: sample_env_def)
  have a: "import_module ?e = None" "import_name ?e = None" by (simp_all add: sample_env_def)
  have m: "main ?e = (Raised (OtherException ''boom''), snd (in_process ?e (snd (mkdir ?e (start ?e)))))"
    by (simp add: main_reached [OF r] generate_unfold in_process_fst a)
  have s: "stdout (snd (main ?e)) = banner sample_env @ [check_mark @ '' Found uniffi_bindgen Python module'']"
    by (simp add: m in_process_stdout a mkdir_simps start_simps) (simp add: banner_def sample_env_def)
  have d: "set manual_guidance \<inter> set (stdout (snd (main ?e))) = {}"
    unfolding s
    by (simp add: manual_guidance_def banner_def check_mark_def hammer_def page_def books_def
        folder_def)
  have g: "\<not> guidance_shown (snd (main ?e))"
    unfolding guidance_shown_def s
    by (simp add: suffix_to_prefix manual_guidance_def banner_def check_mark_def)
  from r a s d g m show ?thesis by simp
qed

subsection \<open>The result reporter\<close>

text \<open>
  Claim C6. The listing step (lines 93 to 102) returns normally from every world, whatever
  is at the output path, and always ends by printing the next-step lines. With nothing at
  the output path the listing is skipped: only the next-step lines are added. With an
  empty directory the heading is printed, no entry, then the next-step lines.
\<close>

theorem listing_never_raises:
  "fst (report w) = Returned \<and> suffix next_steps (stdout (snd (report w))) \<and>
   (outdir w = Absent \<longrightarrow> stdout (snd (report w)) = stdout w @ next_steps) \<and>
   (outdir w = Dir [] \<longrightarrow>
      stdout (snd (report w)) = stdout w @ [CHR 0x0A # memo @ '' Generated files:''] @ next_steps)"
  by (simp add: report_simps listing_def suffix_def)

theorem listing_never_raises_witness:
  "outdir \<lparr>stdout = [], trace = [], outdir = Absent\<rparr> = Absent \<and>
   fst (report \<lparr>stdout = [], trace = [], outdir = Absent\<rparr>) = Returned \<and>
   stdout (snd (report \<lparr>stdout = [], trace = [], outdir = Absent\<rparr>)) = next_steps \<and>
   outdir \<lparr>stdout = [], trace = [], outdir = Dir []\<rparr> = Dir [] \<and>
   fst (report \<lparr>stdout = [], trace = [], outdir = Dir []\<rparr>) = Returned \<and>
   stdout (snd (report \<lparr>stdout = [], trace = [], outdir = Dir []\<rparr>)) =
     (CHR 0x0A # memo @ '' Generated files:'') # next_steps"
  using listing_never_raises [of "\<lparr>stdout = [], trace = [], outdir = Absent\<rparr>"]
    listing_never_raises [of "\<lparr>stdout = [], trace = [], outdir = Dir []\<rparr>"]
  by simp

text \<open>
  Claim C7. When \<open>main\<close> returns normally, its output ends with one line per entry of
  the output directory, the entries' names in ascending lexicographic order (a sorted
  rearrangement of what the directory holds), followed by the next-step lines, which are a
  constant of the script.
\<close>

theorem listing_sorted_then_next_steps:
  assumes "fst (main e) = Returned"
  shows "\<exists>pre names. stdout (snd (main e)) = pre @ map entry_line names @ next_steps \<and>
     sorted names \<and> mset names = mset (glob_star (outdir (snd (main e))))"
proof -
  from assms have r: "reaches_generation e"
    by (auto simp: main_unfold reaches_generation_def split: if_splits option.splits)
  let ?w = "snd (generate e (snd (mkdir e (start e))))"
  from assms r have m: "main e = report ?w"
    by (auto simp: main_reached split: option.splits)
  let ?names = "sort (glob_star (outdir ?w))"
  have "stdout (snd (main e)) =
      (stdout ?w @ (if exists (outdir ?w) then [CHR 0x0A # memo @ '' Generated files:''] else [])) @
      map entry_line ?names @ next_steps"
    by (cases "outdir ?w") (simp_all add: m report_simps listing_def)
  moreover have "sorted ?names" by simp
  moreover have "mset ?names = mset (glob_star (outdir (snd (main e))))"
    by (simp add: m report_simps)
  ultimately show ?thesis by blast
qed


theorem listing_sorted_then_next_steps_witness:
  "fst (main sample_env) = Returned \<and>
   (\<exists>pre names. stdout (snd (main sample_env)) = pre @ map entry_line names @ next_steps \<and>
      sorted names \<and> mset names = mset [''mepassaFFI.h'', ''mepassa.swift''])"
proof -
  have r: "reaches_generation sample_env"
    by (rule sample_reaches) (simp_all add: sample_env_def)
  have a: "import_module sample_env = None" "import_name sample_env = None"
    "generate_bindings_result sample_env = None"
    by (simp_all add: sample_env_def)
  have m: "main sample_env = report (snd (in_process sample_env (snd (mkdir sample_env (start sample_env)))))"
    by (simp add: main_reached [OF r] generate_unfold in_process_fst a)
  have h: "fst (main sample_env) = Returned"
    by (simp add: m report_simps)
  have o: "glob_star (outdir (snd (main sample_env))) = [''mepassaFFI.h'', ''mepassa.swift'']"
    by (simp add: m report_simps in_process_outdir a made_outdir [OF r])
       (simp add: sample_env_def writes_bindings_def)
  from listing_sorted_then_next_steps [OF h] show ?thesis
    unfolding o using h by simp
qed

subsection \<open>The output directory\<close>

text \<open>
  Claim C9, as amended. When both preconditions pass, creating the output directory is the
  first effectful step of the run, ahead of every import, call and subprocess. If it raises
  (the path is occupied by something that is not a directory, or the system refuses), the
  exception is not caught: the run ends there, nothing is generated and the path is as it
  was. If it succeeds, the path holds a directory when the strategies start; and as long as
  the generators themselves leave a directory in place, it still holds one after the run,
  however the strategies end, so that a directory absent before the run has been left
  behind.
\<close>

theorem mkdir_precedes_generation:
  assumes "lib_exists e" and "udl_exists e"
  shows "(\<exists>rest. trace (snd (main e)) = Mkdir (out_dir e) # rest) \<and>
    (\<not> reaches_generation e \<longrightarrow>
       (\<exists>x. fst (main e) = Raised x \<and> is_Exception x) \<and>
       trace (snd (main e)) = [Mkdir (out_dir e)] \<and> outdir (snd (main e)) = out_node e) \<and>
    (reaches_generation e \<longrightarrow> is_dir (outdir (snd (mkdir e (start e))))) \<and>
    (reaches_generation e \<and>
     (\<forall>n. is_dir n \<longrightarrow> is_dir (generate_bindings_effect e n) \<and> is_dir (subprocess_effect e n)) \<longrightarrow>
       is_dir (outdir (snd (main e))) \<and>
       (out_node e = Absent \<longrightarrow> outdir (snd (main e)) \<noteq> out_node e))"
proof -
  have f1: "\<exists>rest. trace (snd (main e)) = Mkdir (out_dir e) # rest"
  proof (cases "reaches_generation e")
    case True
    then show ?thesis by (rule reached_trace)
  next
    case False
    from mkdir_raises [OF assms False] show ?thesis by simp
  qed
  have f2: "\<not> reaches_generation e \<longrightarrow>
       (\<exists>x. fst (main e) = Raised x \<and> is_Exception x) \<and>
       trace (snd (main e)) = [Mkdir (out_dir e)] \<and> outdir (snd (main e)) = out_node e"
    using mkdir_raises [OF assms] by (rule impI)
  have f3: "reaches_generation e \<longrightarrow> is_dir (outdir (snd (mkdir e (start e))))"
    by (simp add: made_outdir)
  have f4: "reaches_generation e \<and>
     (\<forall>n. is_dir n \<longrightarrow> is_dir (generate_bindings_effect e n) \<and> is_dir (subprocess_effect e n)) \<longrightarrow>
       is_dir (outdir (snd (main e))) \<and>
       (out_node e = Absent \<longrightarrow> outdir (snd (main e)) \<noteq> out_node e)"
  proof
    assume h: "reaches_generation e \<and>
      (\<forall>n. is_dir n \<longrightarrow> is_dir (generate_bindings_effect e n) \<and> is_dir (subprocess_effect e n))"
    then have r: "reaches_generation e" ..
    from h have k1: "is_dir (generate_bindings_effect e n)" if "is_dir n" for n
      using that by blast
    from h have k2: "is_dir (subprocess_effect e n)" if "is_dir n" for n
      using that by blast
    have d1: "is_dir (outdir (snd (mkdir e (start e))))"
      by (simp add: made_outdir [OF r])
    have d: "is_dir (outdir (snd (main e)))"
      unfolding reached_outdir [OF r] using d1 k1 k2 by (rule generate_keeps_dir)
    moreover from d have "outdir (snd (main e)) \<noteq> Absent"
      by (cases "outdir (snd (main e))") simp_all
    ultimately show "is_dir (outdir (snd (main e))) \<and>
       (out_node e = Absent \<longrightarrow> outdir (snd (main e)) \<noteq> out_node e)"
      by simp
  qed
  show ?thesis
    by (rule conjI [OF f1 conjI [OF f2 conjI [OF f3 f4]]])
qed

theorem mkdir_precedes_generation_witness:
  "lib_exists both_fail \<and> udl_exists both_fail \<and> reaches_generation both_fail \<and>
   out_node both_fail = Absent \<and>
   fst (main both_fail) = Raised (SystemExit 1) \<and>
   is_dir (outdir (snd (main both_fail))) \<and>
   outdir (snd (main both_fail)) \<noteq> out_node both_fail \<and>
   (\<exists>rest. trace (snd (main both_fail)) = Mkdir (out_dir both_fail) # rest)"
proof -
  have l: "lib_exists both_fail" and u: "udl_exists both_fail" and a: "out_node both_fail = Absent"
    by (simp_all add: both_fail_def sample_env_def)
  have r: "reaches_generation both_fail"
    by (rule sample_reaches) (simp_all add: both_fail_def sample_env_def)
  have k: "\<forall>n. is_dir n \<longrightarrow>
      is_dir (generate_bindings_effect both_fail n) \<and> is_dir (subprocess_effect both_fail n)"
    by (simp add: both_fail_def sample_env_def writes_bindings_def)
  have i: "import_module both_fail = Some no_module" and c: "chdir both_fail = None"
    and p: "subprocess_result both_fail = Inl cargo_not_found"
    by (simp_all add: both_fail_def sample_env_def)
  have s: "fst (main both_fail) = Raised (SystemExit 1)"
    by (simp add: main_reached [OF r] generate_unfold in_process_fst fallback_fst
        cargo_approach_fst i c p no_module_def cargo_not_found_def)
  from mkdir_precedes_generation [OF l u] r k a s l u show ?thesis
    by simp
qed

text \<open>
  The claim as stated says the directory is created in every run in which both
  preconditions pass. With a regular file at the output path both preconditions pass,
  line 37 raises \<open>FileExistsError\<close>, and the path is no directory after the run.
\<close>

theorem occupied_output_path_is_not_created:
  "lib_exists (sample_env\<lparr>out_node := File\<rparr>) \<and> udl_exists (sample_env\<lparr>out_node := File\<rparr>) \<and>
   fst (main (sample_env\<lparr>out_node := File\<rparr>)) =
     Raised (OtherException ''[Errno 17] File exists: /repo/ios/MePassa/Generated'') \<and>
   trace (snd (main (sample_env\<lparr>out_node := File\<rparr>))) = [Mkdir ''/repo/ios/MePassa/Generated''] \<and>
   outdir (snd (main (sample_env\<lparr>out_node := File\<rparr>))) = File \<and>
   \<not> is_dir (outdir (snd (main (sample_env\<lparr>out_node := File\<rparr>))))"
  by (simp add: main_unfold mkdir_fst mkdir_simps start_simps)
     (simp add: sample_env_def)

subsection \<open>SystemExit and the handler of the fallback\<close>

text \<open>
  Claim C10. In a run that enters the handler of \<open>ImportError\<close>: when cargo completes
  with a return code other than 0, the \<open>SystemExit\<close> raised by \<open>sys.exit(1)\<close> is not
  an \<open>Exception\<close>, passes the \<open>except Exception\<close> clause and ends the run with status
  1, without the manual guidance block. When the change of directory or the start of the
  subprocess raises an \<open>Exception\<close>, the handler prints the error line and the guidance
  block and ends the run with status 1 as well. The guidance block ends the output only in
  that second case.
\<close>

theorem system_exit_passes_the_handler:
  assumes "falls_back e"
  shows "(\<forall>r. chdir e = None \<and> subprocess_result e = Inr r \<and> returncode r \<noteq> 0 \<longrightarrow>
        fst (main e) = Raised (SystemExit 1) \<and> exit_code (fst (main e)) = 1 \<and>
        \<not> guidance_shown (snd (main e))) \<and>
    (\<forall>x. is_Exception x \<and> (chdir e = Some x \<or> chdir e = None \<and> subprocess_result e = Inl x) \<longrightarrow>
        fst (main e) = Raised (SystemExit 1) \<and> exit_code (fst (main e)) = 1 \<and>
        guidance_shown (snd (main e)) \<and>
        suffix ((cross @ '' Error: '' @ str_exn x) # manual_guidance) (stdout (snd (main e)))) \<and>
    (guidance_shown (snd (main e)) \<longrightarrow>
       (\<exists>x. is_Exception x \<and>
            (chdir e = Some x \<or> chdir e = None \<and> subprocess_result e = Inl x)))"
proof -
  from falls_back_main [OF assms] obtain w where m: "main e =
    (case fst (cargo_approach e w) of
       None \<Rightarrow> report (snd (cargo_approach e (prints warnings w)))
     | Some x \<Rightarrow>
         if is_Exception x
         then (Raised (SystemExit 1),
               prints manual_guidance
                 (print (cross @ '' Error: '' @ str_exn x)
                    (snd (cargo_approach e (prints warnings w)))))
         else (Raised x, snd (cargo_approach e (prints warnings w))))" ..
  let ?c = "snd (cargo_approach e (prints warnings w))"
  have f1: "fst (main e) = Raised (SystemExit 1) \<and> exit_code (fst (main e)) = 1 \<and>
        \<not> guidance_shown (snd (main e))"
    if h: "chdir e = None \<and> subprocess_result e = Inr r \<and> returncode r \<noteq> 0" for r
  proof -
    from h have c: "fst (cargo_approach e w) = Some (SystemExit 1)"
      by (simp add: cargo_approach_fst)
    have m': "main e = (Raised (SystemExit 1), ?c)"
      unfolding m c by simp
    from h have s: "stdout ?c = (stdout w @ warnings) @ [cross @ '' Error generating bindings:'', stderr r]"
      by (simp add: cargo_approach_stdout world_simps)
    show ?thesis
      unfolding m' guidance_shown_def by (simp add: s not_guidance_after_stderr del: append_assoc)
  qed
  have f2: "fst (main e) = Raised (SystemExit 1) \<and> exit_code (fst (main e)) = 1 \<and>
        guidance_shown (snd (main e)) \<and>
        suffix ((cross @ '' Error: '' @ str_exn x) # manual_guidance) (stdout (snd (main e)))"
    if h: "is_Exception x \<and> (chdir e = Some x \<or> chdir e = None \<and> subprocess_result e = Inl x)" for x
  proof -
    from h have c: "fst (cargo_approach e w) = Some x"
      by (auto simp: cargo_approach_fst)
    from h have ex: "is_Exception x" ..
    have m': "main e = (Raised (SystemExit 1),
        prints manual_guidance (print (cross @ '' Error: '' @ str_exn x) ?c))"
      unfolding m c using ex by simp
    have s: "stdout (snd (main e)) = stdout ?c @ (cross @ '' Error: '' @ str_exn x) # manual_guidance"
      unfolding m' by (simp add: world_simps)
    have g: "suffix manual_guidance (stdout (snd (main e)))"
      unfolding s by (simp add: suffix_def)
    have g': "suffix ((cross @ '' Error: '' @ str_exn x) # manual_guidance) (stdout (snd (main e)))"
      unfolding s by (simp add: suffix_def)
    from g g' show ?thesis
      unfolding guidance_shown_def by (simp add: m')
  qed
  have f3: "\<exists>x. is_Exception x \<and>
            (chdir e = Some x \<or> chdir e = None \<and> subprocess_result e = Inl x)"
    if g: "guidance_shown (snd (main e))"
  proof (rule ccontr)
    assume n: "\<not> (\<exists>x. is_Exception x \<and>
            (chdir e = Some x \<or> chdir e = None \<and> subprocess_result e = Inl x))"
    have "\<not> guidance_shown (snd (main e))"
    proof (cases "fst (cargo_approach e w)")
      case None
      then have m': "main e = report ?c"
        unfolding m by simp
      have "stdout (snd (main e)) = (stdout ?c @ listing (outdir ?c)) @ next_steps"
        unfolding m' by (simp add: report_simps)
      then show ?thesis
        unfolding guidance_shown_def by (simp add: not_guidance_after_next_steps del: append_assoc)
    next
      case (Some x)
      show ?thesis
      proof (cases "is_Exception x")
        case True
        with Some n show ?thesis
          by (auto simp: cargo_approach_fst split: option.splits sum.splits if_splits)
      next
        case False
        with Some have m': "main e = (Raised x, ?c)"
          unfolding m by simp
        show ?thesis
        proof (cases "chdir e")
          case (Some y)
          then have "stdout ?c = stdout w @ warnings"
            by (simp add: cargo_approach_stdout world_simps)
          then show ?thesis
            unfolding m' guidance_shown_def by (simp add: not_guidance_after_warnings)
        next
          case None
          note cd = this
          show ?thesis
          proof (cases "subprocess_result e")
            case (Inl y)
            with cd have "stdout ?c = stdout w @ warnings"
              by (simp add: cargo_approach_stdout world_simps)
            then show ?thesis
              unfolding m' guidance_shown_def by (simp add: not_guidance_after_warnings)
          next
            case (Inr r)
            with cd Some False have rc: "returncode r \<noteq> 0"
              by (auto simp: cargo_approach_fst)
            with cd Inr have "stdout ?c =
                (stdout w @ warnings) @ [cross @ '' Error generating bindings:'', stderr r]"
              by (simp add: cargo_approach_stdout world_simps)
            then show ?thesis
              unfolding m' guidance_shown_def
              by (simp add: not_guidance_after_stderr del: append_assoc)
          qed
        qed
      qed
    qed
    with g show False by simp
  qed
  have F1: "\<forall>r. chdir e = None \<and> subprocess_result e = Inr r \<and> returncode r \<noteq> 0 \<longrightarrow>
        fst (main e) = Raised (SystemExit 1) \<and> exit_code (fst (main e)) = 1 \<and>
        \<not> guidance_shown (snd (main e))"
    by (intro allI impI) (rule f1)
  have F2: "\<forall>x. is_Exception x \<and> (chdir e = Some x \<or> chdir e = None \<and> subprocess_result e = Inl x) \<longrightarrow>
        fst (main e) = Raised (SystemExit 1) \<and> exit_code (fst (main e)) = 1 \<and>
        guidance_shown (snd (main e)) \<and>
        suffix ((cross @ '' Error: '' @ str_exn x) # manual_guidance) (stdout (snd (main e)))"
    by (intro allI impI) (rule f2)
  have F3: "guidance_shown (snd (main e)) \<longrightarrow>
       (\<exists>x. is_Exception x \<and>
            (chdir e = Some x \<or> chdir e = None \<and> subprocess_result e = Inl x))"
    by (rule impI) (rule f3)
  show ?thesis
    by (rule conjI [OF F1 conjI [OF F2 F3]])
qed

theorem system_exit_passes_the_handler_witness:
  "falls_back cargo_fails \<and> falls_back both_fail \<and>
   returncode cargo_failure \<noteq> 0 \<and> is_Exception cargo_not_found \<and>
   fst (main cargo_fails) = Raised (SystemExit 1) \<and> exit_code (fst (main cargo_fails)) = 1 \<and>
   \<not> guidance_shown (snd (main cargo_fails)) \<and>
   fst (main both_fail) = Raised (SystemExit 1) \<and> exit_code (fst (main both_fail)) = 1 \<and>
   guidance_shown (snd (main both_fail)) \<and>
   suffix ((cross @ '' Error: '' @ str_exn cargo_not_found) # manual_guidance)
     (stdout (snd (main both_fail)))"
proof -
  have r1: "reaches_generation cargo_fails"
    by (rule sample_reaches) (simp_all add: cargo_fails_def sample_env_def)
  have a: "falls_back cargo_fails"
    by (rule sample_falls_back [OF r1, of no_module])
       (simp_all add: cargo_fails_def no_module_def)
  have r2: "reaches_generation both_fail"
    by (rule sample_reaches) (simp_all add: both_fail_def sample_env_def)
  have b: "falls_back both_fail"
    by (rule sample_falls_back [OF r2, of no_module])
       (simp_all add: both_fail_def no_module_def)
  have h1: "chdir cargo_fails = None \<and> subprocess_result cargo_fails = Inr cargo_failure \<and>
      returncode cargo_failure \<noteq> 0"
    by (simp add: cargo_fails_def sample_env_def cargo_failure_def)
  have h2: "is_Exception cargo_not_found \<and>
      (chdir both_fail = Some cargo_not_found \<or>
       chdir both_fail = None \<and> subprocess_result both_fail = Inl cargo_not_found)"
    by (simp add: both_fail_def sample_env_def cargo_not_found_def)
  from system_exit_passes_the_handler [OF a] h1
  have c1: "fst (main cargo_fails) = Raised (SystemExit 1) \<and> exit_code (fst (main cargo_fails)) = 1 \<and>
      \<not> guidance_shown (snd (main cargo_fails))"
    by blast
  from system_exit_passes_the_handler [OF b] h2
  have c2: "fst (main both_fail) = Raised (SystemExit 1) \<and> exit_code (fst (main both_fail)) = 1 \<and>
      guidance_shown (snd (main both_fail)) \<and>
      suffix ((cross @ '' Error: '' @ str_exn cargo_not_found) # manual_guidance)
        (stdout (snd (main both_fail)))"
    by blast
  from a b h1 h2 c1 c2 show ?thesis by simp
qed

end
